theory Spec2Isabelle
  imports Complex_Main
begin

section \<open>The MNIST example notebook of QuantLib\<close>


subsection \<open>Metric\<close>

text \<open>
  \<^verbatim>\<open>
  class Metric(object):
      def __init__(self, name):
          self.name = name
          self.sum  = 0
          self.n    = 0
      def update(self, value):
          self.sum += value
          self.n += 1
      @property
      def avg(self):
          return self.sum / self.n
  \<close>
  The fields are prefixed with \<open>self_\<close>, since \<open>sum\<close> is a constant of HOL.
\<close>

record Metric =
  self_name :: string
  self_sum :: rat
  self_n :: nat


definition update :: "Metric \<Rightarrow> rat \<Rightarrow> Metric" where
  "update self v = self\<lparr>self_sum := self_sum self + v, self_n := self_n self + 1\<rparr>"


text \<open>A sequence of calls \<^verbatim>\<open>m.update(v_1); ...; m.update(v_k)\<close> on one object.\<close>

fun updates :: "Metric \<Rightarrow> rat list \<Rightarrow> Metric" where
  "updates self [] = self"
| "updates self (v # vs) = updates (update self v) vs"

subsection \<open>The data loaders\<close>

text \<open>
  An example is an image and its label. \<^verbatim>\<open>transforms.ToTensor()\<close> gives the image as a
  tensor of pixel values; the tensor is modelled as the list of its entries. A batch is
  the pair \<^verbatim>\<open>(data, target)\<close> that the loop of \<^verbatim>\<open>validate\<close> unpacks.
\<close>

type_synonym image = "rat list"
type_synonym example = "image \<times> nat"





subsection \<open>validate\<close>

text \<open>
  \<^verbatim>\<open>
  def validate(model, device, dataloader, verbose=True, integer=False):
      model.eval()
      loss    = 0
      correct = 0
      acc     = Metric('test_acc')
      with tqdm(total=len(dataloader), desc='Validation', disable=not verbose) as t:
          with torch.no_grad():
              for data, target in dataloader:
                  if integer:      # support for production of
                      data *= 255  # non-negative integer data
                  data, target = data.to(device), target.to(device)
                  output = model(data)
                  loss += F.nll_loss(output, target, reduction='sum').item()
                  pred = output.argmax(dim=1)
                  correct += pred.eq(target).sum().item()
                  acc.update(pred.eq(target).float().mean().item())
                  t.set_postfix({'acc': acc.avg})
                  t.update(1)
      loss /= len(dataloader.dataset)
      return acc.avg
  \<close>
  The model is a parameter: the function from a batch of images to the batch of output
  rows that the network computes in evaluation mode. The progress bar only displays.
\<close>







text \<open>\<^verbatim>\<open>data *= 255\<close> when \<open>integer\<close> is set, and the data unchanged otherwise.\<close>

definition scale_data :: "bool \<Rightarrow> image list \<Rightarrow> image list" where
  "scale_data integer data = (if integer then map (map (\<lambda>v. v * 255)) data else data)"





subsection \<open>What validate computes, batch by batch\<close>








subsection \<open>The datasets of the notebook\<close>

text \<open>
  \<^verbatim>\<open>
  Mcalib = 1024 # calibration set size
  train_set = datasets.MNIST('./data', train=True , download=True, transform=transforms.ToTensor())
  calib_set = torch.utils.data.Subset(train_set, indices=np.random.permutation(len(train_set))[:Mcalib])
  valid_set = datasets.MNIST('./data', train=False, download=True, transform=transforms.ToTensor())
  calib_loader = torch.utils.data.DataLoader(calib_set, batch_size=128, shuffle=False, drop_last=True, **kwargs)
  valid_loader = torch.utils.data.DataLoader(valid_set, batch_size=128, shuffle=False, drop_last=True, **kwargs)
  \<close>
  The two splits of MNIST and the value that \<^verbatim>\<open>np.random.permutation(len(train_set))\<close>
  returns are parameters. \<^verbatim>\<open>Subset(ds, indices)\<close> is the dataset whose \<open>i\<close>-th item is
  \<^verbatim>\<open>ds[indices[i]]\<close>; the indices of a permutation of \<^verbatim>\<open>range(len(ds))\<close> are all in range.
\<close>

definition Mcalib :: nat where
  "Mcalib = 1024"

definition Subset :: "'a list \<Rightarrow> nat list \<Rightarrow> 'a list" where
  "Subset ds indices = map (\<lambda>i. ds ! i) indices"

definition calib_set :: "nat list \<Rightarrow> example list \<Rightarrow> example list" where
  "calib_set permutation train_set = Subset train_set (take Mcalib permutation)"



subsection \<open>The script of the notebook\<close>

text \<open>
  The cells of the notebook run top to bottom, without a branch. The statements that
  create, edit, validate, report or export a model are listed in their order; imports,
  the class and function definitions, the dataset statements above, \<^verbatim>\<open>print_tabular\<close>,
  \<^verbatim>\<open>.eval()\<close> and \<^verbatim>\<open>.to(device)\<close> are left out. A model is named by its Python variable.
  \<^verbatim>\<open>
  model = ExampleNet().to(device)                               # cell 4
  model = ExampleNet().to(device)                               # cell 6
  model.load_state_dict(state_dict, strict=True)
  acc = validate(model, device, valid_loader)
  print("\n\nFullPrecision accuracy: %.3f" % (acc))
  model_fp = qg.fx.quantlib_symbolic_trace(root=model)          # cell 8
  model_fq = f2fconverter(model_fp)                             # cell 10
  with qe.float2fake.calibration(model_fq):                     # cell 14
      acc = validate(model_fq, device, calib_loader)
  model_fq_rounded = rounder(model_fq)
  acc = validate(model_fq_rounded, device, valid_loader)
  print("\nFakeQuantized with calibration+rounding: accuracy: %.3f" % (acc))
  model_tq = f2tconverter(model_fq_rounded, {'x': {...}})       # cell 16
  acc = validate(model_tq, device, valid_loader, integer=True)  # cell 18
  print("\nTrueQuantized: accuracy: %.3f" % (acc))
  model_tq_removed = epsremover(model_tq)                       # cell 20
  doryexporter.export(model_tq, x.shape, ".")                   # cell 22
  doryexporter.dump_features(model_tq, x, ".")
  \<close>
\<close>

datatype stage = FloatingPoint | FakeQuantized | TrueQuantized

datatype editor =
    quantlib_symbolic_trace
  | F2F8bitPACTRoundingConverter
  | F2F8bitPACTRounder
  | F2T24bitConverter
  | FinalEpsTunnelRemover

datatype loader_id = Calib_loader | Valid_loader

datatype stmt =
    New_ExampleNet string
  | Load_state_dict string
  | Apply_editor string editor string
  | Enter_calibration string
  | Exit_calibration
  | Call_validate string loader_id "bool option"
  | Print_accuracy string
  | DORY_export string
  | DORY_dump_features string

text \<open>
  \<open>Apply_editor r e v\<close> is \<^verbatim>\<open>r = e(v)\<close>; \<open>Call_validate v l kw\<close> is
  \<^verbatim>\<open>acc = validate(v, device, l)\<close> when \<open>kw\<close> is \<open>None\<close> and
  \<^verbatim>\<open>acc = validate(v, device, l, integer=b)\<close> when it is \<open>Some b\<close>.
\<close>

definition notebook :: "stmt list" where
  "notebook =
     [New_ExampleNet ''model'',
      New_ExampleNet ''model'',
      Load_state_dict ''model'',
      Call_validate ''model'' Valid_loader None,
      Print_accuracy ''FullPrecision'',
      Apply_editor ''model_fp'' quantlib_symbolic_trace ''model'',
      Apply_editor ''model_fq'' F2F8bitPACTRoundingConverter ''model_fp'',
      Enter_calibration ''model_fq'',
      Call_validate ''model_fq'' Calib_loader None,
      Exit_calibration,
      Apply_editor ''model_fq_rounded'' F2F8bitPACTRounder ''model_fq'',
      Call_validate ''model_fq_rounded'' Valid_loader None,
      Print_accuracy ''FakeQuantized with calibration+rounding'',
      Apply_editor ''model_tq'' F2T24bitConverter ''model_fq_rounded'',
      Call_validate ''model_tq'' Valid_loader (Some True),
      Print_accuracy ''TrueQuantized'',
      Apply_editor ''model_tq_removed'' FinalEpsTunnelRemover ''model_tq'',
      DORY_export ''model_tq'',
      DORY_dump_features ''model_tq'']"

text \<open>
  Modelled from the spec: the editors are modules of the library
  (\<^verbatim>\<open>quantlib.editing.float2fake\<close>, \<^verbatim>\<open>quantlib.editing.f2t\<close>, \<^verbatim>\<open>quantlib.graphs.fx\<close>), which
  are not in the source. The spec names three representations and says which converter
  reaches which: the Float2Fake converter gives the fake-quantized model and the Fake2True
  converter the true-quantized one. The tracer, the rounder and the remover of the final
  EpsTunnel keep the representation of their argument.
\<close>

fun stage_after :: "editor \<Rightarrow> stage \<Rightarrow> stage" where
  "stage_after F2F8bitPACTRoundingConverter st = FakeQuantized"
| "stage_after F2T24bitConverter st = TrueQuantized"
| "stage_after e st = st"

text \<open>
  Running the script keeps, for every model variable, the representation of the model it
  holds, whether a calibration context is open, which call of \<open>validate\<close> the variable
  \<^verbatim>\<open>acc\<close> comes from, and a log of what happened. A statement that reads a variable that
  is not bound fails (Python's NameError): the result is \<open>None\<close>.
\<close>

record validate_call =
  of_model :: string
  at_stage :: stage
  on_loader :: loader_id
  with_integer :: bool
  in_calibration :: bool

datatype event =
    Created string stage
  | Converted string editor stage stage
  | Validated validate_call
  | Printed string validate_call
  | Exported string stage

record notebook_state =
  models :: "(string \<times> stage) list"
  calibrating :: "string option"
  acc_of :: "validate_call option"
  log :: "event list"

definition initial_state :: notebook_state where
  "initial_state = \<lparr>models = [], calibrating = None, acc_of = None, log = []\<rparr>"

text \<open>The keyword \<open>integer\<close> of \<open>validate\<close> has the default \<open>False\<close>.\<close>

fun exec :: "stmt \<Rightarrow> notebook_state \<Rightarrow> notebook_state option" where
  "exec (New_ExampleNet v) s =
     Some (s\<lparr>models := (v, FloatingPoint) # models s,
             log := log s @ [Created v FloatingPoint]\<rparr>)"
| "exec (Load_state_dict v) s =
     (case map_of (models s) v of None \<Rightarrow> None | Some st \<Rightarrow> Some s)"
| "exec (Apply_editor r e v) s =
     (case map_of (models s) v of
        None \<Rightarrow> None
      | Some st \<Rightarrow>
          Some (s\<lparr>models := (r, stage_after e st) # models s,
                  log := log s @ [Converted r e st (stage_after e st)]\<rparr>))"
| "exec (Enter_calibration v) s =
     (case map_of (models s) v of
        None \<Rightarrow> None
      | Some st \<Rightarrow> Some (s\<lparr>calibrating := Some v\<rparr>))"
| "exec Exit_calibration s = Some (s\<lparr>calibrating := None\<rparr>)"
| "exec (Call_validate v l kw) s =
     (case map_of (models s) v of
        None \<Rightarrow> None
      | Some st \<Rightarrow>
          let c = \<lparr>of_model = v, at_stage = st, on_loader = l,
                   with_integer = (case kw of None \<Rightarrow> False | Some b \<Rightarrow> b),
                   in_calibration = (calibrating s = Some v)\<rparr>
          in Some (s\<lparr>acc_of := Some c, log := log s @ [Validated c]\<rparr>))"
| "exec (Print_accuracy label) s =
     (case acc_of s of
        None \<Rightarrow> None
      | Some c \<Rightarrow> Some (s\<lparr>log := log s @ [Printed label c]\<rparr>))"
| "exec (DORY_export v) s =
     (case map_of (models s) v of
        None \<Rightarrow> None
      | Some st \<Rightarrow> Some (s\<lparr>log := log s @ [Exported v st]\<rparr>))"
| "exec (DORY_dump_features v) s =
     (case map_of (models s) v of
        None \<Rightarrow> None
      | Some st \<Rightarrow> Some (s\<lparr>log := log s @ [Exported v st]\<rparr>))"

fun run :: "stmt list \<Rightarrow> notebook_state \<Rightarrow> notebook_state option" where
  "run [] s = Some s"
| "run (c # cs) s = (case exec c s of None \<Rightarrow> None | Some s' \<Rightarrow> run cs s')"

definition notebook_log :: "event list option" where
  "notebook_log = map_option log (run notebook initial_state)"

text \<open>Readings of a log: the representations reached, in order; the editing and export
  events; the calls of \<open>validate\<close>; the accuracies printed.\<close>

fun stages_reached :: "event list \<Rightarrow> stage list" where
  "stages_reached [] = []"
| "stages_reached (Created v st # es) = st # stages_reached es"
| "stages_reached (Converted r e st st' # es) = st' # stages_reached es"
| "stages_reached (e # es) = stages_reached es"

fun editing_events :: "event list \<Rightarrow> event list" where
  "editing_events [] = []"
| "editing_events (Converted r e st st' # es) = Converted r e st st' # editing_events es"
| "editing_events (Exported v st # es) = Exported v st # editing_events es"
| "editing_events (e # es) = editing_events es"



subsection \<open>Small inputs on which the theorems are tried\<close>







subsection \<open>Facts about Metric\<close>



lemma updates_name: "self_name (updates m vs) = self_name m"
  by (induction vs arbitrary: m) (simp_all add: update_def)

lemma updates_append: "updates m (vs @ ws) = updates (updates m vs) ws"
  by (induction vs arbitrary: m) simp_all




subsection \<open>Facts about the loop of validate\<close>




























subsection \<open>Facts about the script\<close>

lemma notebook_log_value:
  "notebook_log = Some
     [Created ''model'' FloatingPoint,
      Created ''model'' FloatingPoint,
      Validated \<lparr>of_model = ''model'', at_stage = FloatingPoint, on_loader = Valid_loader,
                 with_integer = False, in_calibration = False\<rparr>,
      Printed ''FullPrecision''
        \<lparr>of_model = ''model'', at_stage = FloatingPoint, on_loader = Valid_loader,
         with_integer = False, in_calibration = False\<rparr>,
      Converted ''model_fp'' quantlib_symbolic_trace FloatingPoint FloatingPoint,
      Converted ''model_fq'' F2F8bitPACTRoundingConverter FloatingPoint FakeQuantized,
      Validated \<lparr>of_model = ''model_fq'', at_stage = FakeQuantized, on_loader = Calib_loader,
                 with_integer = False, in_calibration = True\<rparr>,
      Converted ''model_fq_rounded'' F2F8bitPACTRounder FakeQuantized FakeQuantized,
      Validated \<lparr>of_model = ''model_fq_rounded'', at_stage = FakeQuantized,
                 on_loader = Valid_loader, with_integer = False, in_calibration = False\<rparr>,
      Printed ''FakeQuantized with calibration+rounding''
        \<lparr>of_model = ''model_fq_rounded'', at_stage = FakeQuantized,
         on_loader = Valid_loader, with_integer = False, in_calibration = False\<rparr>,
      Converted ''model_tq'' F2T24bitConverter FakeQuantized TrueQuantized,
      Validated \<lparr>of_model = ''model_tq'', at_stage = TrueQuantized, on_loader = Valid_loader,
                 with_integer = True, in_calibration = False\<rparr>,
      Printed ''TrueQuantized''
        \<lparr>of_model = ''model_tq'', at_stage = TrueQuantized, on_loader = Valid_loader,
         with_integer = True, in_calibration = False\<rparr>,
      Converted ''model_tq_removed'' FinalEpsTunnelRemover TrueQuantized TrueQuantized,
      Exported ''model_tq'' TrueQuantized,
      Exported ''model_tq'' TrueQuantized]"
  by (simp add: notebook_log_def notebook_def initial_state_def Let_def)

text \<open>
  Claim C2. The script takes the pretrained classifier through exactly three
  representations, in this order: floating-point, then fake-quantized (reached by the
  Float2Fake converter), then true-quantized (reached by the Fake2True converter). The two
  calls of the DORY exporter come after every edit, and the model they export is
  true-quantized.
\<close>

theorem notebook_stages_in_order:
  "map_option (\<lambda>l. remdups_adj (stages_reached l)) notebook_log
     = Some [FloatingPoint, FakeQuantized, TrueQuantized]
   \<and> map_option editing_events notebook_log
     = Some [Converted ''model_fp'' quantlib_symbolic_trace FloatingPoint FloatingPoint,
             Converted ''model_fq'' F2F8bitPACTRoundingConverter FloatingPoint FakeQuantized,
             Converted ''model_fq_rounded'' F2F8bitPACTRounder FakeQuantized FakeQuantized,
             Converted ''model_tq'' F2T24bitConverter FakeQuantized TrueQuantized,
             Converted ''model_tq_removed'' FinalEpsTunnelRemover TrueQuantized TrueQuantized,
             Exported ''model_tq'' TrueQuantized,
             Exported ''model_tq'' TrueQuantized]"
  by (simp add: notebook_log_value)


subsection \<open>The inputs of the model under validate\<close>




text \<open>
  \<^verbatim>\<open>transforms.ToTensor()\<close> turns a pixel \<open>k\<close> of an 8-bit image into \<open>k / 255\<close>. On such
  data, \<^verbatim>\<open>data *= 255\<close> gives the pixels back: the model under \<open>integer = True\<close> receives
  whole numbers between 0 and 255.
\<close>

lemma scale_data_integer_valued:
  assumes "\<forall>img \<in> set data. \<forall>v \<in> set img. \<exists>k \<le> 255. v = of_nat k / 255"
  shows "\<forall>img \<in> set (scale_data True data). \<forall>v \<in> set img. \<exists>k \<le> 255. v = of_nat (k::nat)"
  using assms by (fastforce simp: scale_data_def)



subsection \<open>The calibration subset\<close>





text \<open>
  The calibration set depends on the outcome of the permutation: on a training split of
  more than 1024 different examples, two permutations give two different sets.
\<close>

lemma calib_set_depends_on_permutation:
  assumes d: "distinct train_set" and n: "Mcalib < length train_set"
  shows "\<exists>p q. distinct p \<and> set p = {..< length train_set}
           \<and> distinct q \<and> set q = {..< length train_set}
           \<and> set (calib_set p train_set) \<noteq> set (calib_set q train_set)"
proof -
  let ?n = "length train_set"
  let ?p = "[0 ..< ?n]" and ?q = "rev [0 ..< ?n]"
  have in_p: "train_set ! 0 \<in> set (calib_set ?p train_set)"
  proof -
    from n have "0 \<in> set (take Mcalib ?p)" by (simp add: Mcalib_def take_upt)
    then show ?thesis by (auto simp: calib_set_def Subset_def)
  qed
  have not_q: "train_set ! 0 \<notin> set (calib_set ?q train_set)"
  proof
    assume "train_set ! 0 \<in> set (calib_set ?q train_set)"
    then obtain i where i: "i \<in> set (take Mcalib ?q)" and e: "train_set ! 0 = train_set ! i"
      by (auto simp: calib_set_def Subset_def)
    have "take Mcalib ?q = rev (drop (?n - Mcalib) ?p)"
      by (simp add: take_rev)
    with i have "i \<in> set (drop (?n - Mcalib) ?p)" by simp
    then have lo: "?n - Mcalib \<le> i" and hi: "i < ?n" by auto
    from n lo have "0 < i" by simp
    moreover from n have "0 < ?n" by (rule le_less_trans [OF le0])
    from nth_eq_iff_index_eq [OF d this hi] e have "i = 0" by simp
    ultimately show False by simp
  qed
  have "set (calib_set ?p train_set) \<noteq> set (calib_set ?q train_set)"
    using in_p not_q by blast
  moreover have "distinct ?p" "set ?p = {..< ?n}" "distinct ?q" "set ?q = {..< ?n}"
    by (simp_all add: atLeast0LessThan)
  ultimately show ?thesis by blast
qed



end
